theory Spec2Isabelle
  imports Main "HOL-Library.Sublist" "HOL-Library.Monad_Syntax"
begin

section \<open>JavaScript strings\<close>

text \<open>
  A JavaScript string is modelled as a \<^typ>\<open>string\<close>: one \<^typ>\<open>char\<close> per UTF-16 code
  unit, for code units below 256 (the Latin-1 range); code units above 255 are outside the
  model. Every literal and every character class of the sources is ASCII. The string
  methods the sources call are the list functions below.
\<close>

definition startsWith :: "string \<Rightarrow> string \<Rightarrow> bool" where
  "startsWith s p = prefix p s"

definition endsWith :: "string \<Rightarrow> string \<Rightarrow> bool" where
  "endsWith s p = suffix p s"

definition js_includes :: "string \<Rightarrow> string \<Rightarrow> bool" where
  "js_includes s p = sublist p s"

text \<open>
  \<open>String.prototype.toLowerCase\<close> on Latin-1 code units: \<open>A\<close>..\<open>Z\<close> and the
  accented capitals \<open>0xC0\<close>..\<open>0xDE\<close> (without the multiplication sign \<open>0xD7\<close>) move up
  by 32, every other code unit stays.
\<close>

definition lowerChar :: "char \<Rightarrow> char" where
  "lowerChar c =
     (let n = (of_char c :: nat) in
      if (65 \<le> n \<and> n \<le> 90) \<or> (192 \<le> n \<and> n \<le> 222 \<and> n \<noteq> 215)
      then char_of (n + 32) else c)"

definition toLowerCase :: "string \<Rightarrow> string" where
  "toLowerCase s = map lowerChar s"

text \<open>The line terminators that the regular-expression dot does not match.\<close>

definition lineTerminator :: "char \<Rightarrow> bool" where
  "lineTerminator c = (c = CHR 0x0A \<or> c = CHR 0x0D)"

subsection \<open>Pieces of the regular expressions\<close>

text \<open>
  The regular expressions of the sources are built from literals and negated character
  classes. \<open>lit p s\<close> consumes the literal \<open>p\<close> at the start of \<open>s\<close>; \<open>many1 ex s\<close> is
  a greedy \<open>[^...]+\<close> for the excluded characters \<open>ex\<close>: it consumes the longest run of
  other characters, which must not be empty. In every expression below the class is
  followed by one of its excluded characters or stands last, so the longest run is the only
  one with which the rest of the expression can match and no backtracking is lost.
\<close>

definition lit :: "string \<Rightarrow> string \<Rightarrow> string option" where
  "lit p s = (if prefix p s then Some (drop (length p) s) else None)"

definition many1 :: "string \<Rightarrow> string \<Rightarrow> (string \<times> string) option" where
  "many1 ex s =
     (let m = takeWhile (\<lambda>c. c \<notin> set ex) s in
      if m = [] then None else Some (m, dropWhile (\<lambda>c. c \<notin> set ex) s))"

text \<open>\<open>atEnd\<close> is the anchor \<open>$\<close> (no multiline flag is used anywhere).\<close>

definition atEnd :: "string \<Rightarrow> unit option" where
  "atEnd s = (if s = [] then Some () else None)"

section \<open>The content script: constants\<close>

definition DEFAULT_PROTOCOL :: string where
  "DEFAULT_PROTOCOL = ''antigravity''"

definition SUPPORTED_PROTOCOLS :: "string list" where
  "SUPPORTED_PROTOCOLS = [''vscode'', ''vscode-insiders'', ''antigravity'', ''cursor'', ''windsurf'']"

definition VSCODE_PROTOCOLS :: "string list" where
  "VSCODE_PROTOCOLS =
     [''vscode:'', ''vscode-insiders:'', ''antigravity:'', ''cursor:'', ''windsurf:'', ''vscodium:'']"

definition VSCODE_DEV_REDIRECT_PATTERNS :: "string list" where
  "VSCODE_DEV_REDIRECT_PATTERNS = [''vscode.dev/redirect'', ''insiders.vscode.dev/redirect'']"

definition VSCODE_EXTENSION_SCHEMES :: "string list" where
  "VSCODE_EXTENSION_SCHEMES = [''vscode'', ''vscode-insiders'']"

section \<open>Authentication callbacks\<close>

text \<open>
  \<open>isAuthCallbackUrl\<close> tries \<open>/^([^:]+):\/\/([^/]+)\//\<close> and, when that fails,
  \<open>/^([^:]+):([^/]+)\//\<close>; the provider is the second group, or the empty string when
  neither matches.
\<close>

definition authMatchSlashes :: "string \<Rightarrow> string option" where
  "authMatchSlashes url =
     do { (scheme, r1) \<leftarrow> many1 '':'' url;
          r2 \<leftarrow> lit ''://'' r1;
          (provider, r3) \<leftarrow> many1 ''/'' r2;
          _ \<leftarrow> lit ''/'' r3;
          Some provider }"

definition authMatchColon :: "string \<Rightarrow> string option" where
  "authMatchColon url =
     do { (scheme, r1) \<leftarrow> many1 '':'' url;
          r2 \<leftarrow> lit '':'' r1;
          (provider, r3) \<leftarrow> many1 ''/'' r2;
          _ \<leftarrow> lit ''/'' r3;
          Some provider }"

definition authProvider :: "string \<Rightarrow> string" where
  "authProvider url =
     (case authMatchSlashes url of
        Some p \<Rightarrow> p
      | None \<Rightarrow> (case authMatchColon url of Some p \<Rightarrow> p | None \<Rightarrow> []))"

definition isAuthCallbackUrl :: "string \<Rightarrow> bool" where
  "isAuthCallbackUrl url =
     (if url = [] then False
      else js_includes (toLowerCase (authProvider url)) ''authentication'')"

section \<open>Rewriting the scheme\<close>

text \<open>The global \<open>targetProtocol\<close> is passed to every function that reads it.\<close>

definition getProtocolPrefix :: "string \<Rightarrow> string" where
  "getProtocolPrefix targetProtocol =
     (if targetProtocol = ''antigravity'' then targetProtocol @ ''://''
      else targetProtocol @ '':'')"

definition isVSCodeUrl :: "string \<Rightarrow> bool" where
  "isVSCodeUrl url = (if url = [] then False else list_ex (startsWith url) VSCODE_PROTOCOLS)"

definition isVSCodeDevRedirectUrl :: "string \<Rightarrow> bool" where
  "isVSCodeDevRedirectUrl url =
     (if url = [] then False else list_ex (js_includes url) VSCODE_DEV_REDIRECT_PATTERNS)"

text \<open>
  The loop \<open>for (const protocol of VSCODE_PROTOCOLS)\<close> that returns at the first prefix
  found; \<open>None\<close> when the loop ends without returning.
\<close>

fun replaceProtocol :: "string \<Rightarrow> string list \<Rightarrow> string \<Rightarrow> string option" where
  "replaceProtocol targetProtocol [] url = None"
| "replaceProtocol targetProtocol (protocol # ps) url =
     (if startsWith url protocol
      then Some (getProtocolPrefix targetProtocol @ drop (length protocol) url)
      else replaceProtocol targetProtocol ps url)"

definition convertToTargetUrl :: "string \<Rightarrow> string \<Rightarrow> string" where
  "convertToTargetUrl targetProtocol url =
     (if isAuthCallbackUrl url then url
      else if startsWith url (targetProtocol @ '':'') \<or> startsWith url (targetProtocol @ ''://'')
      then url
      else (case replaceProtocol targetProtocol VSCODE_PROTOCOLS url of
              Some u \<Rightarrow> u
            | None \<Rightarrow> url))"


section \<open>Extension links\<close>

text \<open>
  \<open>parseVSCodeExtensionId\<close> matches \<open>/^([^:]+):(\/\/)?extension\/([^?#]+)/\<close>. The optional
  group is tried first with the two slashes and then without them.
\<close>

definition optSlashes :: "(string \<Rightarrow> 'a option) \<Rightarrow> string \<Rightarrow> 'a option" where
  "optSlashes k s =
     (case Option.bind (lit ''//'' s) k of
        Some x \<Rightarrow> Some x
      | None \<Rightarrow> k s)"

definition extensionIdMatch :: "string \<Rightarrow> (string \<times> string) option" where
  "extensionIdMatch url =
     do { (scheme, r1) \<leftarrow> many1 '':'' url;
          r2 \<leftarrow> lit '':'' r1;
          optSlashes (\<lambda>r3.
            do { r4 \<leftarrow> lit ''extension/'' r3;
                 (extensionId, r5) \<leftarrow> many1 ''?#'' r4;
                 Some (scheme, extensionId) }) r2 }"

definition parseVSCodeExtensionId :: "string \<Rightarrow> string option" where
  "parseVSCodeExtensionId url =
     (case extensionIdMatch url of
        None \<Rightarrow> None
      | Some (scheme, extensionId) \<Rightarrow>
          if scheme \<in> set VSCODE_EXTENSION_SCHEMES then Some extensionId else None)"

text \<open>
  The protocol URL that \<open>handleClick\<close> falls back to when the native host cannot install
  the extension.
\<close>

definition extensionProtocolUrl :: "string \<Rightarrow> string \<Rightarrow> string" where
  "extensionProtocolUrl targetProtocol extensionId =
     (if targetProtocol = ''antigravity'' then ''antigravity://'' @ extensionId
      else getProtocolPrefix targetProtocol @ ''extension/'' @ extensionId)"

section \<open>MCP links\<close>

text \<open>
  The alternation \<open>(vscode|vscode-insiders)\<close>: the first alternative is tried with the
  whole rest of the expression \<open>k\<close>, then the second.
\<close>

definition vscodeScheme :: "(string \<Rightarrow> 'a option) \<Rightarrow> string \<Rightarrow> 'a option" where
  "vscodeScheme k url =
     (case Option.bind (lit ''vscode'' url) k of
        Some x \<Rightarrow> Some x
      | None \<Rightarrow> Option.bind (lit ''vscode-insiders'' url) k)"

definition isMcpUrl :: "string \<Rightarrow> bool" where
  "isMcpUrl url =
     (if url = [] then False
      else vscodeScheme (\<lambda>r. lit '':mcp/'' r) url \<noteq> None)"

text \<open>
  A greedy \<open>.*\<close> followed by the rest \<open>k\<close> of the expression: the dot matches every
  code unit but a line terminator, the longest run is tried first and given back one
  code unit at a time. \<open>k\<close> receives the text the star consumed and the text left.
\<close>

fun dotStar :: "(string \<Rightarrow> string \<Rightarrow> 'a option) \<Rightarrow> string \<Rightarrow> string \<Rightarrow> 'a option" where
  "dotStar k acc [] = k acc []"
| "dotStar k acc (c # cs) =
     (if lineTerminator c then k acc (c # cs)
      else (case dotStar k (acc @ [c]) cs of
              Some x \<Rightarrow> Some x
            | None \<Rightarrow> k acc (c # cs)))"

definition dotPlus :: "(string \<Rightarrow> string \<Rightarrow> 'a option) \<Rightarrow> string \<Rightarrow> 'a option" where
  "dotPlus k s =
     (case s of
        [] \<Rightarrow> None
      | c # cs \<Rightarrow> if lineTerminator c then None else dotStar k [c] cs)"

text \<open>\<open>/^(vscode|vscode-insiders):mcp\/by-name\/([^/?#]+)/\<close>\<close>

definition byNameMatch :: "string \<Rightarrow> string option" where
  "byNameMatch url =
     vscodeScheme (\<lambda>r.
       do { r1 \<leftarrow> lit '':mcp/by-name/'' r;
            (serverName, r2) \<leftarrow> many1 ''/?#'' r1;
            Some serverName }) url"

text \<open>\<open>\/servers\/[^/]+\/([^/?#]+)\<close>, the part of the second expression after \<open>.*\<close>\<close>

definition serversTail :: "string \<Rightarrow> string option" where
  "serversTail s =
     do { r1 \<leftarrow> lit ''/servers/'' s;
          (serverId, r2) \<leftarrow> many1 ''/'' r1;
          r3 \<leftarrow> lit ''/'' r2;
          (serverName, r4) \<leftarrow> many1 ''/?#'' r3;
          Some serverName }"

text \<open>\<open>/^(vscode|vscode-insiders):mcp\/api\.mcp\.github\.com.*\/servers\/[^/]+\/([^/?#]+)/\<close>\<close>

definition apiMatch :: "string \<Rightarrow> string option" where
  "apiMatch url =
     vscodeScheme (\<lambda>r.
       do { r1 \<leftarrow> lit '':mcp/api.mcp.github.com'' r;
            dotStar (\<lambda>skipped r2. serversTail r2) [] r1 }) url"

text \<open>
  \<open>extractMcpServerName\<close> tries the two expressions in this order. Its \<open>try\<close> block holds
  nothing but the two matches, which do not throw.
\<close>

definition extractMcpServerName :: "string \<Rightarrow> string option" where
  "extractMcpServerName url =
     (if \<not> isMcpUrl url then None
      else (case byNameMatch url of
              Some serverName \<Rightarrow> Some serverName
            | None \<Rightarrow> apiMatch url))"

text \<open>
  \<open>MCP_REPO_MAP\<close> is an object literal, and \<open>MCP_REPO_MAP[serverName]\<close> is a property
  read: a name that is not a key of the literal is looked up in \<open>Object.prototype\<close>,
  whose members are functions and objects, never \<open>undefined\<close>.
\<close>

definition MCP_REPO_MAP :: "(string \<times> string) list" where
  "MCP_REPO_MAP =
     [(''huggingface'', ''https://github.com/huggingface/hf-mcp-server''),
      (''hf-mcp-server'', ''https://github.com/huggingface/hf-mcp-server'')]"

definition Object_prototype :: "string list" where
  "Object_prototype =
     [''constructor'', ''__proto__'', ''hasOwnProperty'', ''isPrototypeOf'',
      ''propertyIsEnumerable'', ''toLocaleString'', ''toString'', ''valueOf'',
      ''__defineGetter__'', ''__defineSetter__'', ''__lookupGetter__'', ''__lookupSetter__'']"

datatype property = Own string | Inherited string

definition getProperty :: "(string \<times> string) list \<Rightarrow> string \<Rightarrow> property option" where
  "getProperty obj k =
     (case map_of obj k of
        Some v \<Rightarrow> Some (Own v)
      | None \<Rightarrow> if k \<in> set Object_prototype then Some (Inherited k) else None)"

text \<open>The test \<open>if (repoUrl)\<close>: an empty string is falsy, a function or an object is truthy.\<close>

fun truthyProperty :: "property \<Rightarrow> bool" where
  "truthyProperty (Own v) = (v \<noteq> [])"
| "truthyProperty (Inherited k) = True"

section \<open>The browser's interfaces\<close>

text \<open>
  \<open>new URL(url)\<close> and \<open>decodeURIComponent\<close> belong to the browser, not to the
  repository. The functions that call them take them as a parameter, so that what is proved
  of those functions holds for whatever the browser's parser does. A call that throws is
  the value \<open>Inl\<close> of the exception; \<open>try { ... } catch { ... }\<close> is \<open>try_catch\<close>.
\<close>

datatype js_error = TypeError | URIError

record URL =
  protocol :: string
  hostname :: string
  pathname :: string
  search :: string
  searchParams :: "(string \<times> string) list"

record platform =
  new_URL :: "string \<Rightarrow> js_error + URL"
  decodeURIComponent :: "string \<Rightarrow> js_error + string"

definition bindE :: "js_error + 'a \<Rightarrow> ('a \<Rightarrow> js_error + 'b) \<Rightarrow> js_error + 'b" where
  "bindE m f = (case m of Inl e \<Rightarrow> Inl e | Inr x \<Rightarrow> f x)"

definition try_catch :: "js_error + 'a \<Rightarrow> (js_error \<Rightarrow> js_error + 'a) \<Rightarrow> js_error + 'a" where
  "try_catch m h = (case m of Inl e \<Rightarrow> h e | Inr x \<Rightarrow> Inr x)"

text \<open>\<open>searchParams.get(name)\<close>: the first value stored under the name, or \<open>null\<close>.\<close>

definition searchParams_get :: "URL \<Rightarrow> string \<Rightarrow> string option" where
  "searchParams_get urlObj k = map_of (searchParams urlObj) k"

section \<open>VSIX download links\<close>

text \<open>The four path expressions that \<open>isVsixUrl\<close> tests on the lower-cased path.\<close>

definition openVsxFileTest :: "string \<Rightarrow> bool" where
  "openVsxFileTest p =
     (do { r1 \<leftarrow> lit ''/api/'' p;
           (a, r2) \<leftarrow> many1 ''/'' r1;
           r3 \<leftarrow> lit ''/'' r2;
           (b, r4) \<leftarrow> many1 ''/'' r3;
           r5 \<leftarrow> lit ''/'' r4;
           (c, r6) \<leftarrow> many1 ''/'' r5;
           lit ''/file'' r6 } \<noteq> None)"

definition vsAssetsTest :: "string \<Rightarrow> bool" where
  "vsAssetsTest p =
     (do { r1 \<leftarrow> lit ''/_apis/public/gallery/publisher/'' p;
           (a, r2) \<leftarrow> many1 ''/'' r1;
           r3 \<leftarrow> lit ''/extension/'' r2;
           (b, r4) \<leftarrow> many1 ''/'' r3;
           r5 \<leftarrow> lit ''/'' r4;
           (c, r6) \<leftarrow> many1 ''/'' r5;
           lit ''/assetbyname/'' r6 } \<noteq> None)"

definition marketplaceTest :: "string \<Rightarrow> bool" where
  "marketplaceTest p =
     (do { r1 \<leftarrow> lit ''/_apis/public/gallery/publishers/'' p;
           (a, r2) \<leftarrow> many1 ''/'' r1;
           r3 \<leftarrow> lit ''/vsextensions/'' r2;
           (b, r4) \<leftarrow> many1 ''/'' r3;
           r5 \<leftarrow> lit ''/'' r4;
           (c, r6) \<leftarrow> many1 ''/'' r5;
           r7 \<leftarrow> lit ''/vspackage'' r6;
           atEnd r7 } \<noteq> None)"

definition githubReleaseTest :: "string \<Rightarrow> bool" where
  "githubReleaseTest p =
     (do { r1 \<leftarrow> lit ''/'' p;
           (a, r2) \<leftarrow> many1 ''/'' r1;
           r3 \<leftarrow> lit ''/'' r2;
           (b, r4) \<leftarrow> many1 ''/'' r3;
           r5 \<leftarrow> lit ''/releases/download/'' r4;
           (c, r6) \<leftarrow> many1 ''/'' r5;
           r7 \<leftarrow> lit ''/'' r6;
           dotPlus (\<lambda>file r8. do { r9 \<leftarrow> lit ''.vsix'' r8; atEnd r9 }) r7 } \<noteq> None)"

definition isVsixUrl_try :: "platform \<Rightarrow> string \<Rightarrow> js_error + bool" where
  "isVsixUrl_try P url =
     bindE (new_URL P url) (\<lambda>urlObj.
       if protocol urlObj \<noteq> ''http:'' \<and> protocol urlObj \<noteq> ''https:'' then Inr False
       else
         let host = toLowerCase (hostname urlObj);
             path = toLowerCase (pathname urlObj)
         in if endsWith path ''.vsix'' then Inr True
            else if (host = ''open-vsx.org'' \<or> endsWith host ''.open-vsx.org'')
                    \<and> openVsxFileTest path then Inr True
            else if endsWith host ''.gallery.vsassets.io'' \<and> vsAssetsTest path then Inr True
            else if host = ''marketplace.visualstudio.com'' \<and> marketplaceTest path then Inr True
            else if host = ''github.com'' \<and> githubReleaseTest path then Inr True
            else Inr False)"

definition isVsixUrl :: "platform \<Rightarrow> string \<Rightarrow> js_error + bool" where
  "isVsixUrl P url = try_catch (isVsixUrl_try P url) (\<lambda>e. Inr False)"

record extInfo =
  publisher :: string
  name :: string
  version :: "string option"

definition vsAssetsMatch :: "string \<Rightarrow> extInfo option" where
  "vsAssetsMatch p =
     do { r1 \<leftarrow> lit ''/_apis/public/gallery/publisher/'' p;
          (a, r2) \<leftarrow> many1 ''/'' r1;
          r3 \<leftarrow> lit ''/extension/'' r2;
          (b, r4) \<leftarrow> many1 ''/'' r3;
          r5 \<leftarrow> lit ''/'' r4;
          (c, r6) \<leftarrow> many1 ''/'' r5;
          r7 \<leftarrow> lit ''/assetbyname/'' r6;
          _ \<leftarrow> dotPlus (\<lambda>asset r8. atEnd r8) r7;
          Some \<lparr>publisher = a, name = b, version = Some c\<rparr> }"

definition marketplaceMatch :: "string \<Rightarrow> extInfo option" where
  "marketplaceMatch p =
     do { r1 \<leftarrow> lit ''/_apis/public/gallery/publishers/'' p;
          (a, r2) \<leftarrow> many1 ''/'' r1;
          r3 \<leftarrow> lit ''/vsextensions/'' r2;
          (b, r4) \<leftarrow> many1 ''/'' r3;
          r5 \<leftarrow> lit ''/'' r4;
          (c, r6) \<leftarrow> many1 ''/'' r5;
          r7 \<leftarrow> lit ''/vspackage'' r6;
          _ \<leftarrow> atEnd r7;
          Some \<lparr>publisher = a, name = b, version = Some c\<rparr> }"

text \<open>
  \<open>/^\/api\/([^/]+)\/([^/]+)\/([^/]+)\/file(?:\/([^/]+))?$/\<close>: after \<open>/file\<close> comes the
  end, or one more segment and the end.
\<close>

definition openVsxMatch :: "string \<Rightarrow> extInfo option" where
  "openVsxMatch p =
     do { r1 \<leftarrow> lit ''/api/'' p;
          (a, r2) \<leftarrow> many1 ''/'' r1;
          r3 \<leftarrow> lit ''/'' r2;
          (b, r4) \<leftarrow> many1 ''/'' r3;
          r5 \<leftarrow> lit ''/'' r4;
          (c, r6) \<leftarrow> many1 ''/'' r5;
          r7 \<leftarrow> lit ''/file'' r6;
          _ \<leftarrow> (case do { r8 \<leftarrow> lit ''/'' r7; (d, r9) \<leftarrow> many1 ''/'' r8; atEnd r9 } of
                 Some u \<Rightarrow> Some u
               | None \<Rightarrow> atEnd r7);
          Some \<lparr>publisher = a, name = b, version = Some c\<rparr> }"

text \<open>\<open>pathname.split('/').pop()\<close>: the text after the last slash.\<close>

definition lastSegment :: "string \<Rightarrow> string" where
  "lastSegment p = rev (takeWhile (\<lambda>c. c \<noteq> CHR ''/'') (rev p))"

text \<open>
  \<open>indexOf\<close> and \<open>lastIndexOf\<close> for a single character, \<open>-1\<close> when it does not occur.
\<close>

fun indexOf :: "char \<Rightarrow> string \<Rightarrow> int" where
  "indexOf x [] = -1"
| "indexOf x (c # cs) =
     (if c = x then 0 else (let i = indexOf x cs in if i < 0 then -1 else i + 1))"

definition lastIndexOf :: "char \<Rightarrow> string \<Rightarrow> int" where
  "lastIndexOf x s =
     (let i = indexOf x (rev s) in if i < 0 then -1 else int (length s) - 1 - i)"

text \<open>
  \<open>/^(.+)\.vsix$/i\<close> on the file name: the group is the base name. Within Latin-1 only the
  ASCII letters of \<open>.vsix\<close> have another case.
\<close>

definition vsixMatch :: "string \<Rightarrow> string option" where
  "vsixMatch filename =
     dotPlus (\<lambda>baseName r.
       if toLowerCase (take 5 r) = ''.vsix'' \<and> drop 5 r = [] then Some baseName else None)
       filename"

definition filenameMatch :: "string \<Rightarrow> extInfo option" where
  "filenameMatch filename =
     (if filename = [] then None
      else (case vsixMatch filename of
              None \<Rightarrow> None
            | Some baseName \<Rightarrow>
                let lastDash = lastIndexOf CHR ''-'' baseName;
                    namePart = (if lastDash > 0 then take (nat lastDash) baseName else baseName);
                    ver = (if lastDash > 0 then Some (drop (nat (lastDash + 1)) baseName) else None);
                    dotIndex = indexOf CHR ''.'' namePart
                in if dotIndex > 0
                   then Some \<lparr>publisher = take (nat dotIndex) namePart,
                              name = drop (nat (dotIndex + 1)) namePart,
                              version = (case ver of
                                           None \<Rightarrow> None
                                         | Some v \<Rightarrow> if v = [] then None else Some v)\<rparr>
                   else None))"

definition parseExtensionFromVsixUrl_try :: "platform \<Rightarrow> string \<Rightarrow> js_error + extInfo option" where
  "parseExtensionFromVsixUrl_try P url =
     bindE (new_URL P url) (\<lambda>urlObj.
       let host = toLowerCase (hostname urlObj) in
       case (if endsWith host ''.gallery.vsassets.io'' then vsAssetsMatch (pathname urlObj)
             else None) of
         Some i \<Rightarrow> Inr (Some i)
       | None \<Rightarrow>
           (case (if host = ''marketplace.visualstudio.com''
                  then marketplaceMatch (pathname urlObj) else None) of
              Some i \<Rightarrow> Inr (Some i)
            | None \<Rightarrow>
                (case openVsxMatch (pathname urlObj) of
                   Some i \<Rightarrow> Inr (Some i)
                 | None \<Rightarrow> Inr (filenameMatch (lastSegment (pathname urlObj))))))"

definition parseExtensionFromVsixUrl :: "platform \<Rightarrow> string \<Rightarrow> js_error + extInfo option" where
  "parseExtensionFromVsixUrl P url =
     try_catch (parseExtensionFromVsixUrl_try P url) (\<lambda>e. Inr None)"


subsection \<open>The install URL\<close>

text \<open>
  \<open>URLSearchParams.toString()\<close> is the \<open>application/x-www-form-urlencoded\<close> serialiser:
  letters, digits and \<open>*-._\<close> stay, a space becomes \<open>+\<close>, every other byte of the
  UTF-8 encoding becomes \<open>%XX\<close> in upper-case hexadecimal. A code unit from 128 to 255
  has two UTF-8 bytes.
\<close>

definition hexDigit :: "nat \<Rightarrow> char" where
  "hexDigit d = ''0123456789ABCDEF'' ! (d mod 16)"

definition percentByte :: "nat \<Rightarrow> string" where
  "percentByte b = [CHR ''%'', hexDigit (b div 16), hexDigit (b mod 16)]"

definition formUnreserved :: "char \<Rightarrow> bool" where
  "formUnreserved c =
     (let n = (of_char c :: nat) in
      (48 \<le> n \<and> n \<le> 57) \<or> (65 \<le> n \<and> n \<le> 90) \<or> (97 \<le> n \<and> n \<le> 122)
      \<or> c \<in> set ''*-._'')"

definition formEncodeChar :: "char \<Rightarrow> string" where
  "formEncodeChar c =
     (let n = (of_char c :: nat) in
      if formUnreserved c then [c]
      else if c = CHR '' '' then ''+''
      else if n < 128 then percentByte n
      else percentByte (192 + n div 64) @ percentByte (128 + n mod 64))"

definition formEncode :: "string \<Rightarrow> string" where
  "formEncode s = concat (map formEncodeChar s)"

fun paramsToString :: "(string \<times> string) list \<Rightarrow> string" where
  "paramsToString [] = []"
| "paramsToString [(k, v)] = formEncode k @ ''='' @ formEncode v"
| "paramsToString ((k, v) # kv # kvs) =
     formEncode k @ ''='' @ formEncode v @ ''&'' @ paramsToString (kv # kvs)"

text \<open>\<open>params.set(k, v)\<close>: replaces the value stored under \<open>k\<close>, or appends the pair.\<close>

fun paramsSet :: "string \<Rightarrow> string \<Rightarrow> (string \<times> string) list \<Rightarrow> (string \<times> string) list" where
  "paramsSet k v [] = [(k, v)]"
| "paramsSet k v ((k', v') # kvs) =
     (if k' = k then (k, v) # filter (\<lambda>kv. fst kv \<noteq> k) kvs
      else (k', v') # paramsSet k v kvs)"

definition buildVsixInstallUrl :: "string \<Rightarrow> string \<Rightarrow> extInfo option \<Rightarrow> string" where
  "buildVsixInstallUrl proto vsixUrl info =
     (let params0 = [(''url'', vsixUrl)];
          params1 = (case info of
                       None \<Rightarrow> params0
                     | Some i \<Rightarrow>
                         if publisher i \<noteq> [] \<and> name i \<noteq> []
                         then paramsSet ''name'' (publisher i @ ''.'' @ name i) params0
                         else params0);
          params2 = (case info of
                       None \<Rightarrow> params1
                     | Some i \<Rightarrow>
                         (case version i of
                            None \<Rightarrow> params1
                          | Some v \<Rightarrow> if v \<noteq> [] then paramsSet ''version'' v params1
                                      else params1))
      in proto @ ''://extension/install?'' @ paramsToString params2)"

section \<open>Redirect links of vscode.dev\<close>

text \<open>\<open>String.prototype.replace\<close> with a string pattern replaces the first occurrence.\<close>

fun replaceFirst :: "string \<Rightarrow> string \<Rightarrow> string \<Rightarrow> string" where
  "replaceFirst pat rep [] = (if pat = [] then rep else [])"
| "replaceFirst pat rep (c # cs) =
     (if prefix pat (c # cs) then rep @ drop (length pat) (c # cs)
      else c # replaceFirst pat rep cs)"

text \<open>The second format: the path after \<open>/redirect\<close>, with the query string.\<close>

definition redirectPathUrl :: "string \<Rightarrow> URL \<Rightarrow> string" where
  "redirectPathUrl targetProtocol urlObj =
     (let path = replaceFirst ''/redirect'' [] (pathname urlObj);
          normalizedPath = (if startsWith path ''/'' then drop 1 path else path);
          queryString = search urlObj
      in getProtocolPrefix targetProtocol @ normalizedPath @ queryString)"

text \<open>The first format: the link is the decoded \<open>url\<close> parameter.\<close>

definition redirectParamUrl :: "string \<Rightarrow> string \<Rightarrow> string" where
  "redirectParamUrl targetProtocol decodedUrl =
     (if isAuthCallbackUrl decodedUrl then decodedUrl
      else (case replaceProtocol targetProtocol VSCODE_PROTOCOLS decodedUrl of
              Some u \<Rightarrow> u
            | None \<Rightarrow>
                if startsWith decodedUrl (targetProtocol @ '':'')
                   \<or> startsWith decodedUrl (targetProtocol @ ''://'')
                then decodedUrl
                else decodedUrl))"

definition convertVSCodeDevToProtocol_try :: "platform \<Rightarrow> string \<Rightarrow> string \<Rightarrow> js_error + string" where
  "convertVSCodeDevToProtocol_try P targetProtocol url =
     bindE (new_URL P url) (\<lambda>urlObj.
       case searchParams_get urlObj ''url'' of
         None \<Rightarrow> Inr (redirectPathUrl targetProtocol urlObj)
       | Some urlParam \<Rightarrow>
           if urlParam = [] then Inr (redirectPathUrl targetProtocol urlObj)
           else bindE (decodeURIComponent P urlParam) (\<lambda>decodedUrl.
                  Inr (redirectParamUrl targetProtocol decodedUrl)))"

definition convertVSCodeDevToProtocol :: "platform \<Rightarrow> string \<Rightarrow> string \<Rightarrow> js_error + string option" where
  "convertVSCodeDevToProtocol P targetProtocol url =
     try_catch (bindE (convertVSCodeDevToProtocol_try P targetProtocol url) (\<lambda>u. Inr (Some u)))
       (\<lambda>e. Inr None)"

section \<open>The click handler\<close>

text \<open>
  \<open>handleClick\<close> reads the \<open>href\<close> of the link that was clicked (a click outside a
  link is ignored). What it does with the link:
  \<^item> \<open>PassThrough\<close>: it returns and leaves the click to the browser;
  \<^item> \<open>Navigate u\<close>: it cancels the click and sets \<open>window.location.href = u\<close>
    (what the browser then does with \<open>u\<close> is outside the model);
  \<^item> \<open>Installed i\<close>: it cancels the click, and the native host has installed extension \<open>i\<close>;
  \<^item> \<open>Suppressed\<close>: it cancels the click and does nothing more;
  \<^item> \<open>McpInstructions n r\<close>: it cancels the click and calls
    \<open>showMcpInstructionModal(n, r)\<close>, which is to show the manual instructions and then
    navigate to \<open>r\<close>. What the modal does in the page is outside the model.
\<close>

datatype outcome =
    PassThrough
  | Navigate string
  | Installed string
  | Suppressed
  | McpInstructions string property

text \<open>
  The answer of \<open>chrome.runtime.sendMessage\<close>: the promise is rejected, or it resolves to
  no response, or to a response with its \<open>success\<close> and \<open>error\<close> fields.
\<close>

record response =
  success :: bool
  error :: "string option"

datatype native_reply = Rejected | Resolved "response option"

fun installOutcome :: "string \<Rightarrow> string \<Rightarrow> native_reply \<Rightarrow> outcome" where
  "installOutcome targetProtocol extensionId Rejected =
     Navigate (extensionProtocolUrl targetProtocol extensionId)"
| "installOutcome targetProtocol extensionId (Resolved None) = Suppressed"
| "installOutcome targetProtocol extensionId (Resolved (Some r)) =
     (if success r then Installed extensionId
      else if error r = Some ''Native Host not installed''
      then Navigate (extensionProtocolUrl targetProtocol extensionId)
      else Suppressed)"

text \<open>The last step of the handler, for a link that no earlier step has taken.\<close>

definition plainOutcome :: "string \<Rightarrow> string \<Rightarrow> outcome" where
  "plainOutcome targetProtocol href =
     (if \<not> isVSCodeUrl href then PassThrough
      else let targetUrl = convertToTargetUrl targetProtocol href
           in if targetUrl = href then PassThrough else Navigate targetUrl)"

definition mcpOutcome :: "string \<Rightarrow> string \<Rightarrow> outcome" where
  "mcpOutcome targetProtocol href =
     (if isMcpUrl href then
        (if targetProtocol = ''antigravity'' then
           (case extractMcpServerName href of
              None \<Rightarrow> plainOutcome targetProtocol href
            | Some serverName \<Rightarrow>
                if serverName = [] then plainOutcome targetProtocol href
                else (case getProperty MCP_REPO_MAP serverName of
                        None \<Rightarrow> Suppressed
                      | Some repoUrl \<Rightarrow>
                          if truthyProperty repoUrl then McpInstructions serverName repoUrl
                          else Suppressed))
         else let mcpUrl = convertToTargetUrl targetProtocol href
              in if mcpUrl \<noteq> href then Navigate mcpUrl
                 else plainOutcome targetProtocol href)
      else plainOutcome targetProtocol href)"

definition handleClick :: "platform \<Rightarrow> string \<Rightarrow> native_reply \<Rightarrow> string \<Rightarrow> js_error + outcome" where
  "handleClick P targetProtocol reply href =
     (if isAuthCallbackUrl href then Inr PassThrough
      else (case parseVSCodeExtensionId href of
        Some extensionId \<Rightarrow>
          if targetProtocol \<in> set VSCODE_EXTENSION_SCHEMES
             \<and> startsWith href (targetProtocol @ '':'')
          then Inr PassThrough
          else Inr (installOutcome targetProtocol extensionId reply)
      | None \<Rightarrow>
          if isVSCodeDevRedirectUrl href
          then bindE (convertVSCodeDevToProtocol P targetProtocol href) (\<lambda>targetUrl.
                 case targetUrl of
                   None \<Rightarrow> Inr PassThrough
                 | Some u \<Rightarrow> if u = [] then Inr PassThrough else Inr (Navigate u))
          else bindE (isVsixUrl P href) (\<lambda>vsix.
                 if vsix
                 then bindE (parseExtensionFromVsixUrl P href) (\<lambda>info.
                        Inr (Navigate (buildVsixInstallUrl targetProtocol href info)))
                 else Inr (mcpOutcome targetProtocol href))))"

section \<open>A browser for the examples\<close>

text \<open>
  The examples of the specification need the browser's answer on a few concrete links.
  \<open>browser\<close> reads a link of the shape \<open>scheme:[//host]path[?query][#fragment]\<close> the way
  the URL Standard does when host, path and query are printable ASCII that the standard
  copies unchanged (no credentials, port, backslash, dot segment or character that it
  would escape), and \<open>decodeURIComponent\<close> on ASCII escapes. A host that opens a bracket
  and does not close it is refused, as the standard refuses it. On other links (a special
  scheme without slashes, surrounding spaces, characters to escape) it is not the
  browser's parser. Only the examples use it; everything proved for all links is proved
  for every \<^typ>\<open>platform\<close>.
\<close>

definition isAsciiAlpha :: "char \<Rightarrow> bool" where
  "isAsciiAlpha c =
     (let n = (of_char c :: nat) in (65 \<le> n \<and> n \<le> 90) \<or> (97 \<le> n \<and> n \<le> 122))"

definition isSchemeChar :: "char \<Rightarrow> bool" where
  "isSchemeChar c =
     (let n = (of_char c :: nat) in isAsciiAlpha c \<or> (48 \<le> n \<and> n \<le> 57) \<or> c \<in> set ''+-.'')"

definition hexValue :: "char \<Rightarrow> nat option" where
  "hexValue c =
     (let n = (of_char c :: nat) in
      if 48 \<le> n \<and> n \<le> 57 then Some (n - 48)
      else if 65 \<le> n \<and> n \<le> 70 then Some (n - 55)
      else if 97 \<le> n \<and> n \<le> 102 then Some (n - 87)
      else None)"

text \<open>
  Percent-decoding of a query component: a malformed escape is kept as it is. An escaped
  byte above 127 is kept as one code unit; the browser would read UTF-8 there, which the
  links of the examples do not need.
\<close>

fun formDecode :: "string \<Rightarrow> string" where
  "formDecode (c # h1 # h2 # cs) =
     (if c = CHR ''%'' then
        (case (hexValue h1, hexValue h2) of
           (Some a, Some b) \<Rightarrow> char_of (16 * a + b) # formDecode cs
         | _ \<Rightarrow> c # formDecode (h1 # h2 # cs))
      else (if c = CHR ''+'' then CHR '' '' else c) # formDecode (h1 # h2 # cs))"
| "formDecode (c # cs) = (if c = CHR ''+'' then CHR '' '' else c) # formDecode cs"
| "formDecode [] = []"

fun splitOn :: "char \<Rightarrow> string \<Rightarrow> string list" where
  "splitOn x [] = [[]]"
| "splitOn x (c # cs) =
     (if c = x then [] # splitOn x cs
      else (case splitOn x cs of
              [] \<Rightarrow> [[c]]
            | w # ws \<Rightarrow> (c # w) # ws))"

definition parseQuery :: "string \<Rightarrow> (string \<times> string) list" where
  "parseQuery q =
     map (\<lambda>piece. (formDecode (takeWhile (\<lambda>c. c \<noteq> CHR ''='') piece),
                   formDecode (drop 1 (dropWhile (\<lambda>c. c \<noteq> CHR ''='') piece))))
       (filter (\<lambda>piece. piece \<noteq> []) (splitOn CHR ''&'' q))"

definition browser_new_URL :: "string \<Rightarrow> js_error + URL" where
  "browser_new_URL input =
     (let scheme = takeWhile (\<lambda>c. c \<noteq> CHR '':'') input;
          afterScheme = drop (length scheme + 1) input;
          beforeFragment = takeWhile (\<lambda>c. c \<noteq> CHR ''#'') afterScheme;
          hier = takeWhile (\<lambda>c. c \<noteq> CHR ''?'') beforeFragment;
          query = dropWhile (\<lambda>c. c \<noteq> CHR ''?'') beforeFragment;
          special = (toLowerCase scheme \<in> set [''http'', ''https'']);
          queryPart = (if query = ''?'' then [] else query)
      in if length input \<le> length scheme then Inl TypeError
         else if \<not> (list_all isAsciiAlpha (take 1 scheme) \<and> list_all isSchemeChar scheme
                     \<and> scheme \<noteq> [])
         then Inl TypeError
         else if startsWith hier ''//'' then
           (let authority = takeWhile (\<lambda>c. c \<noteq> CHR ''/'') (drop 2 hier);
                path = dropWhile (\<lambda>c. c \<noteq> CHR ''/'') (drop 2 hier)
            in if special \<and> authority = [] then Inl TypeError
               else if startsWith authority ''['' \<and> \<not> endsWith authority '']''
               then Inl TypeError
               else Inr \<lparr>protocol = toLowerCase scheme @ '':'',
                         hostname = (if special then toLowerCase authority else authority),
                         pathname = (if special \<and> path = [] then ''/'' else path),
                         search = queryPart,
                         searchParams = parseQuery (drop 1 query)\<rparr>)
         else if special then Inl TypeError
         else Inr \<lparr>protocol = toLowerCase scheme @ '':'',
                   hostname = [],
                   pathname = hier,
                   search = queryPart,
                   searchParams = parseQuery (drop 1 query)\<rparr>)"

text \<open>
  \<open>decodeURIComponent\<close> throws \<open>URIError\<close> on a malformed escape, and on an escaped byte
  above 127 that does not start a UTF-8 sequence; the sequences themselves decode to code
  units outside the examples and are not modelled.
\<close>

fun browser_decodeURIComponent :: "string \<Rightarrow> js_error + string" where
  "browser_decodeURIComponent [] = Inr []"
| "browser_decodeURIComponent (c # cs) =
     (if c = CHR ''%'' then
        (case cs of
           h1 # h2 # rest \<Rightarrow>
             (case (hexValue h1, hexValue h2) of
                (Some a, Some b) \<Rightarrow>
                  if 16 * a + b < 128
                  then bindE (browser_decodeURIComponent rest) (\<lambda>r. Inr (char_of (16 * a + b) # r))
                  else Inl URIError
              | _ \<Rightarrow> Inl URIError)
         | _ \<Rightarrow> Inl URIError)
      else bindE (browser_decodeURIComponent cs) (\<lambda>r. Inr (c # r)))"

definition browser :: platform where
  "browser = \<lparr>new_URL = browser_new_URL, decodeURIComponent = browser_decodeURIComponent\<rparr>"


section \<open>The protocol registration helper\<close>

text \<open>
  The helper runs PowerShell commands one after the other and waits for each. Its world
  is the set of files that \<open>fs.access\<close> finds, the registry as a map from a key path and a
  value name to the data stored there, the answer PowerShell gives when it cannot write
  under a key (\<open>writeError\<close>), and the list of the writes attempted so far, whether they
  succeeded or not. Each function takes the world and returns it with its result.
\<close>

record world =
  files :: "string set"
  registry :: "string \<times> string \<Rightarrow> string option"
  writeError :: "string \<Rightarrow> string option"
  attempted :: "(string \<times> string \<times> string) list"

definition fileExists :: "world \<Rightarrow> string \<Rightarrow> bool" where
  "fileExists w filePath = (filePath \<in> files w)"

text \<open>
  \<open>writeRegistry\<close> sets the \<open>(default)\<close> value of a key, and resolves to the error text
  when the script does not print \<open>SUCCESS\<close>.
\<close>

definition setItemProperty :: "world \<Rightarrow> string \<Rightarrow> string \<Rightarrow> string \<Rightarrow> response \<times> world" where
  "setItemProperty w keyPath valueName v =
     (let w1 = w\<lparr>attempted := attempted w @ [(keyPath, valueName, v)]\<rparr>
      in case writeError w keyPath of
           Some e \<Rightarrow> (\<lparr>success = False, error = Some e\<rparr>, w1)
         | None \<Rightarrow>
             (\<lparr>success = True, error = None\<rparr>,
              w1\<lparr>registry := (registry w1)((keyPath, valueName) \<mapsto> v)\<rparr>))"

definition writeRegistry :: "world \<Rightarrow> string \<Rightarrow> string \<Rightarrow> response \<times> world" where
  "writeRegistry w keyPath v = setItemProperty w keyPath ''(default)'' v"

text \<open>The text that a template literal prints for \<open>result.error\<close>.\<close>

definition errorText :: "response \<Rightarrow> string" where
  "errorText r = (case error r of Some e \<Rightarrow> e | None \<Rightarrow> ''undefined'')"

definition backslash :: string where
  "backslash = [CHR 0x5C]"

definition dquote :: string where
  "dquote = [CHR 0x22]"

definition registerProtocol :: "world \<Rightarrow> string \<Rightarrow> string \<Rightarrow> response \<times> world" where
  "registerProtocol w proto execPath =
     (if \<not> fileExists w execPath
      then (\<lparr>success = False, error = Some (''Executable not found: '' @ execPath)\<rparr>, w)
      else
        let basePath = ''HKCU:'' @ backslash @ ''Software'' @ backslash @ ''Classes''
                         @ backslash @ proto;
            (descResult, w1) = writeRegistry w basePath (''URL:'' @ proto @ '' Protocol'')
        in if \<not> success descResult
           then (\<lparr>success = False,
                  error = Some (''Failed to set description: '' @ errorText descResult)\<rparr>, w1)
           else
             let (flagResult, w2) = setItemProperty w1 basePath ''URL Protocol'' [];
                 command = dquote @ execPath @ dquote @ '' '' @ dquote @ ''--open-url'' @ dquote
                             @ '' '' @ dquote @ ''--'' @ dquote @ '' '' @ dquote @ ''%1'' @ dquote;
                 (cmdResult, w3) =
                    writeRegistry w2
                      (basePath @ backslash @ ''shell'' @ backslash @ ''open'' @ backslash
                         @ ''command'')
                      command
             in if \<not> success cmdResult
                then (\<lparr>success = False,
                       error = Some (''Failed to set command: '' @ errorText cmdResult)\<rparr>, w3)
                else (\<lparr>success = True, error = None\<rparr>, w3))"


text \<open>A world for the examples: one executable is installed, the registry is empty.\<close>

definition example_world :: world where
  "example_world =
     \<lparr>files = {''C:/Programs/Cursor/Cursor.exe''},
      registry = Map.empty,
      writeError = (\<lambda>k. None),
      attempted = []\<rparr>"

section \<open>Facts about the pieces of the regular expressions\<close>

lemma lit_append: "lit p (p @ r) = Some r"
  by (simp add: lit_def)

lemma lit_Some_iff: "lit p s = Some r \<longleftrightarrow> s = p @ r"
  by (auto simp: lit_def prefix_def)

lemma many1_append:
  assumes "m \<noteq> []" and "set m \<inter> set ex = {}" and "r = [] \<or> hd r \<in> set ex"
  shows "many1 ex (m @ r) = Some (m, r)"
proof -
  have a: "\<And>c. c \<in> set m \<Longrightarrow> c \<notin> set ex" using assms(2) by auto
  have t: "takeWhile (\<lambda>c. c \<notin> set ex) r = []" using assms(3) by (cases r) auto
  have d: "dropWhile (\<lambda>c. c \<notin> set ex) r = r" using assms(3) by (cases r) auto
  have "takeWhile (\<lambda>c. c \<notin> set ex) (m @ r) = m"
    using a t by (simp add: takeWhile_append2)
  moreover have "dropWhile (\<lambda>c. c \<notin> set ex) (m @ r) = r"
    using a d by (simp add: dropWhile_append2)
  ultimately show ?thesis using assms(1) by (simp add: many1_def)
qed

lemma many1_SomeD:
  assumes "many1 ex s = Some (m, r)"
  shows "s = m @ r" and "m \<noteq> []" and "set m \<inter> set ex = {}" and "r = [] \<or> hd r \<in> set ex"
proof -
  from assms have m: "m = takeWhile (\<lambda>c. c \<notin> set ex) s"
    and r: "r = dropWhile (\<lambda>c. c \<notin> set ex) s"
    and ne: "m \<noteq> []"
    by (auto simp: many1_def Let_def split: if_splits)
  show "s = m @ r" using m r by simp
  show "m \<noteq> []" by (rule ne)
  show "set m \<inter> set ex = {}" using m by (auto dest: set_takeWhileD)
  show "r = [] \<or> hd r \<in> set ex" using r hd_dropWhile[of "\<lambda>c. c \<notin> set ex" s] by auto
qed


section \<open>Authentication callbacks are left alone\<close>





section \<open>Plain protocol links\<close>

lemma isVSCodeUrl_known:
  assumes "p \<in> set VSCODE_PROTOCOLS"
  shows "isVSCodeUrl (p @ rest)"
proof -
  have "p \<noteq> []" using assms by (auto simp: VSCODE_PROTOCOLS_def)
  moreover have "startsWith (p @ rest) p" by (simp add: startsWith_def)
  then have "list_ex (startsWith (p @ rest)) VSCODE_PROTOCOLS"
    using assms unfolding list_ex_iff by blast
  ultimately show ?thesis by (simp add: isVSCodeUrl_def)
qed

lemma prefix_starts_with_target:
  "startsWith (getProtocolPrefix t @ rest) (t @ '':'')"
  by (simp add: getProtocolPrefix_def startsWith_def)

lemma replaceProtocol_known:
  assumes "p \<in> set VSCODE_PROTOCOLS"
  shows "replaceProtocol t VSCODE_PROTOCOLS (p @ rest) = Some (getProtocolPrefix t @ rest)"
  using assms by (auto simp: VSCODE_PROTOCOLS_def startsWith_def)

text \<open>
  Claim C3. A link that starts with one of the prefixes \<open>p\<close> of \<open>VSCODE_PROTOCOLS\<close>, is
  not an authentication callback and does not start with the target's scheme and a colon
  is rewritten to the target's prefix followed by everything that came after \<open>p\<close>,
  unchanged. The prefix is \<open>antigravity://\<close> for the target \<open>antigravity\<close> and the target
  with a bare colon for every other target. The last step of the click handler navigates
  to the rewritten link.
\<close>

theorem plain_protocol_rewrite:
  assumes "p \<in> set VSCODE_PROTOCOLS"
    and "\<not> isAuthCallbackUrl (p @ rest)"
    and "\<not> startsWith (p @ rest) (targetProtocol @ '':'')"
  shows "convertToTargetUrl targetProtocol (p @ rest) = getProtocolPrefix targetProtocol @ rest
         \<and> getProtocolPrefix targetProtocol
             = (if targetProtocol = ''antigravity'' then ''antigravity://''
                else targetProtocol @ '':'')
         \<and> plainOutcome targetProtocol (p @ rest)
             = Navigate (getProtocolPrefix targetProtocol @ rest)"
proof -
  have "\<not> startsWith (p @ rest) (targetProtocol @ ''://'')"
    using assms(3) by (auto simp: startsWith_def prefix_def)
  then have conv: "convertToTargetUrl targetProtocol (p @ rest)
                   = getProtocolPrefix targetProtocol @ rest"
    using assms replaceProtocol_known[OF assms(1)] by (simp add: convertToTargetUrl_def)
  have "getProtocolPrefix targetProtocol @ rest \<noteq> p @ rest"
    using prefix_starts_with_target[of targetProtocol rest] assms(3) by auto
  then have "plainOutcome targetProtocol (p @ rest)
             = Navigate (getProtocolPrefix targetProtocol @ rest)"
    using conv isVSCodeUrl_known[OF assms(1)] by (simp add: plainOutcome_def)
  then show ?thesis using conv by (simp add: getProtocolPrefix_def)
qed

theorem plain_protocol_rewrite_witness:
  "convertToTargetUrl ''cursor'' ''vscode:extension/ms-python.python''
     = ''cursor:extension/ms-python.python''
   \<and> convertToTargetUrl ''antigravity'' ''vscode-insiders://file/tmp/a.txt''
     = ''antigravity:////file/tmp/a.txt''
   \<and> plainOutcome ''cursor'' ''vscode:extension/ms-python.python''
     = Navigate ''cursor:extension/ms-python.python''"
proof -
  have p1: "''vscode:'' \<in> set VSCODE_PROTOCOLS" by (simp add: VSCODE_PROTOCOLS_def)
  have a1: "\<not> isAuthCallbackUrl (''vscode:'' @ ''extension/ms-python.python'')" by code_simp
  have s1: "\<not> startsWith (''vscode:'' @ ''extension/ms-python.python'') (''cursor'' @ '':'')"
    by (simp add: startsWith_def)
  have p2: "''vscode-insiders:'' \<in> set VSCODE_PROTOCOLS" by (simp add: VSCODE_PROTOCOLS_def)
  have a2: "\<not> isAuthCallbackUrl (''vscode-insiders:'' @ ''//file/tmp/a.txt'')" by code_simp
  have s2: "\<not> startsWith (''vscode-insiders:'' @ ''//file/tmp/a.txt'') (''antigravity'' @ '':'')"
    by (simp add: startsWith_def)
  show ?thesis
    using plain_protocol_rewrite[OF p1 a1 s1] plain_protocol_rewrite[OF p2 a2 s2]
    by simp
qed

text \<open>
  Claim C8. A link that already starts with the target's scheme and a colon is returned
  unchanged by the rewrite, for every target protocol, and the last step of the click
  handler leaves it to the browser.
\<close>

theorem target_scheme_noop:
  assumes "startsWith url (targetProtocol @ '':'')"
  shows "convertToTargetUrl targetProtocol url = url
         \<and> plainOutcome targetProtocol url = PassThrough"
  using assms by (simp add: convertToTargetUrl_def plainOutcome_def)

theorem target_scheme_noop_witness:
  "startsWith ''cursor:extension/ms-python.python'' (''cursor'' @ '':'')
   \<and> convertToTargetUrl ''cursor'' ''cursor:extension/ms-python.python''
       = ''cursor:extension/ms-python.python''
   \<and> plainOutcome ''cursor'' ''cursor:extension/ms-python.python'' = PassThrough"
proof -
  have h: "startsWith ''cursor:extension/ms-python.python'' (''cursor'' @ '':'')"
    by (simp add: startsWith_def)
  show ?thesis using h target_scheme_noop[OF h] by simp
qed

section \<open>Registering a protocol without its executable\<close>

text \<open>
  Claim C10. When the executable path is not a file that exists, \<open>registerProtocol\<close>
  answers \<open>success = false\<close> with the error \<open>Executable not found:\<close> and the path, for
  every protocol name, and returns the world as it found it: the registry is the same and
  no write has been attempted, since the check comes before the first write.
\<close>

theorem register_missing_executable:
  assumes "\<not> fileExists w execPath"
  shows "registerProtocol w proto execPath
           = (\<lparr>success = False, error = Some (''Executable not found: '' @ execPath)\<rparr>, w)
         \<and> registry (snd (registerProtocol w proto execPath)) = registry w
         \<and> attempted (snd (registerProtocol w proto execPath)) = attempted w"
  using assms by (simp add: registerProtocol_def)

theorem register_missing_executable_witness:
  "\<not> fileExists example_world ''C:/Programs/Windsurf/Windsurf.exe''
   \<and> registerProtocol example_world ''windsurf'' ''C:/Programs/Windsurf/Windsurf.exe''
       = (\<lparr>success = False,
            error = Some ''Executable not found: C:/Programs/Windsurf/Windsurf.exe''\<rparr>,
          example_world)"
proof -
  have h: "\<not> fileExists example_world ''C:/Programs/Windsurf/Windsurf.exe''"
    by (simp add: fileExists_def example_world_def)
  show ?thesis using h register_missing_executable[OF h, of "''windsurf''"] by simp
qed

section \<open>The fallback URL of an extension link\<close>

lemma many1_scheme:
  "many1 ex s = Some (m, r) \<Longrightarrow> m = takeWhile (\<lambda>c. c \<notin> set ex) s"
  by (auto simp: many1_def Let_def split: if_splits)

lemma extensionIdMatch_SomeD:
  assumes "extensionIdMatch url = Some (scheme, eid)"
  shows "scheme = takeWhile (\<lambda>c. c \<noteq> CHR '':'') url"
    and "eid \<noteq> []" and "set eid \<inter> set ''?#'' = {}"
    and "prefix (scheme @ '':'') url"
proof -
  from assms obtain a r1 r2 where m0: "many1 '':'' url = Some (a, r1)"
    and l: "lit '':'' r1 = Some r2"
    and k: "optSlashes (\<lambda>r3. do { r4 \<leftarrow> lit ''extension/'' r3;
                 (extensionId, r5) \<leftarrow> many1 ''?#'' r4;
                 Some (a, extensionId) }) r2 = Some (scheme, eid)"
    by (auto simp: extensionIdMatch_def split: Option.bind_splits)
  from k obtain r4 r5 where e: "many1 ''?#'' r4 = Some (eid, r5)" and a: "a = scheme"
    by (auto simp: optSlashes_def split: Option.bind_splits option.splits)
  have m: "many1 '':'' url = Some (scheme, r1)" using m0 a by simp
  show "scheme = takeWhile (\<lambda>c. c \<noteq> CHR '':'') url"
    using many1_scheme[OF m] by simp
  show "eid \<noteq> []" using many1_SomeD(2)[OF e] .
  show "set eid \<inter> set ''?#'' = {}" using many1_SomeD(3)[OF e] .
  have "url = scheme @ r1" using many1_SomeD(1)[OF m] .
  moreover have "r1 = '':'' @ r2" using l by (simp add: lit_Some_iff)
  ultimately show "prefix (scheme @ '':'') url" by (simp add: prefix_def)
qed

lemma parseVSCodeExtensionId_SomeD:
  assumes "parseVSCodeExtensionId url = Some eid"
  shows "eid \<noteq> []" and "set eid \<inter> set ''?#'' = {}"
    and "takeWhile (\<lambda>c. c \<noteq> CHR '':'') url \<in> set VSCODE_EXTENSION_SCHEMES"
    and "isVSCodeUrl url"
proof -
  from assms obtain scheme where m: "extensionIdMatch url = Some (scheme, eid)"
    and s: "scheme \<in> set VSCODE_EXTENSION_SCHEMES"
    by (auto simp: parseVSCodeExtensionId_def split: option.splits if_splits)
  show "eid \<noteq> []" using extensionIdMatch_SomeD(2)[OF m] .
  show "set eid \<inter> set ''?#'' = {}" using extensionIdMatch_SomeD(3)[OF m] .
  show "takeWhile (\<lambda>c. c \<noteq> CHR '':'') url \<in> set VSCODE_EXTENSION_SCHEMES"
    using extensionIdMatch_SomeD(1)[OF m] s by simp
  have p: "prefix (scheme @ '':'') url" using extensionIdMatch_SomeD(4)[OF m] .
  then have "url \<noteq> []" by auto
  moreover have "startsWith url ''vscode:'' \<or> startsWith url ''vscode-insiders:''"
    using p s by (auto simp: VSCODE_EXTENSION_SCHEMES_def startsWith_def)
  ultimately show "isVSCodeUrl url"
    by (auto simp: isVSCodeUrl_def VSCODE_PROTOCOLS_def)
qed

lemma extensionIdMatch_colon_form:
  assumes "t \<noteq> []" and "CHR '':'' \<notin> set t"
    and "eid \<noteq> []" and "set eid \<inter> set ''?#'' = {}"
  shows "extensionIdMatch (t @ '':extension/'' @ eid) = Some (t, eid)"
proof -
  have m: "many1 '':'' (t @ '':extension/'' @ eid) = Some (t, '':extension/'' @ eid)"
    using many1_append[of t "'':''" "'':extension/'' @ eid"] assms(1,2) by simp
  have e: "many1 ''?#'' eid = Some (eid, [])"
    using many1_append[of eid "''?#''" "[]"] assms(3,4) by simp
  show ?thesis
    using m e by (simp add: extensionIdMatch_def lit_def optSlashes_def)
qed

lemma reparse_fallback:
  assumes "eid \<noteq> []" and "set eid \<inter> set ''?#'' = {}"
    and "t \<in> set SUPPORTED_PROTOCOLS"
  shows "parseVSCodeExtensionId (extensionProtocolUrl t eid)
         = (if t \<in> set VSCODE_EXTENSION_SCHEMES then Some eid else None)"
proof (cases "t \<in> set VSCODE_EXTENSION_SCHEMES")
  case True
  then have t: "t \<noteq> []" "CHR '':'' \<notin> set t" "t \<noteq> ''antigravity''"
    by (auto simp: VSCODE_EXTENSION_SCHEMES_def)
  have "extensionProtocolUrl t eid = t @ '':extension/'' @ eid"
    using t(3) by (simp add: extensionProtocolUrl_def getProtocolPrefix_def)
  then show ?thesis
    using extensionIdMatch_colon_form[OF t(1,2) assms(1,2)] True
    by (simp add: parseVSCodeExtensionId_def)
next
  case False
  have tc: "CHR '':'' \<notin> set t" using assms(3) by (auto simp: SUPPORTED_PROTOCOLS_def)
  have "\<exists>r. extensionProtocolUrl t eid = t @ CHR '':'' # r"
    by (simp add: extensionProtocolUrl_def getProtocolPrefix_def)
  then obtain r where u: "extensionProtocolUrl t eid = t @ CHR '':'' # r" ..
  have "takeWhile (\<lambda>c. c \<noteq> CHR '':'') (t @ CHR '':'' # r) = t"
    using tc by (induction t) auto
  then have "parseVSCodeExtensionId (extensionProtocolUrl t eid) = None"
    using parseVSCodeExtensionId_SomeD(3)[of "extensionProtocolUrl t eid"] False u
    by (cases "parseVSCodeExtensionId (extensionProtocolUrl t eid)") auto
  then show ?thesis using False by simp
qed

text \<open>
  Claim C2, as the code has it. Let \<open>eid\<close> be the extension id that
  \<open>parseVSCodeExtensionId\<close> extracts from a link, and take the protocol URL that
  \<open>handleClick\<close> builds for it when the native host is not available. For the targets
  \<open>vscode\<close> and \<open>vscode-insiders\<close> that URL is again an extension link with the same
  id. For the other supported targets (\<open>antigravity\<close>, \<open>cursor\<close>, \<open>windsurf\<close>) it is
  not an extension link: the classifier accepts the schemes of
  \<open>VSCODE_EXTENSION_SCHEMES\<close> only.
\<close>

theorem extension_fallback_reclassified:
  assumes "parseVSCodeExtensionId href = Some eid"
    and "targetProtocol \<in> set SUPPORTED_PROTOCOLS"
  shows "parseVSCodeExtensionId (extensionProtocolUrl targetProtocol eid)
         = (if targetProtocol \<in> set VSCODE_EXTENSION_SCHEMES then Some eid else None)"
  using reparse_fallback[OF parseVSCodeExtensionId_SomeD(1,2)[OF assms(1)] assms(2)] .

theorem extension_fallback_reclassified_witness:
  "parseVSCodeExtensionId ''vscode-insiders:extension/ms-python.python'' = Some ''ms-python.python''
   \<and> handleClick browser ''vscode'' Rejected ''vscode-insiders:extension/ms-python.python''
       = Inr (Navigate (extensionProtocolUrl ''vscode'' ''ms-python.python''))
   \<and> parseVSCodeExtensionId (extensionProtocolUrl ''vscode'' ''ms-python.python'')
       = Some ''ms-python.python''"
proof -
  have h1: "parseVSCodeExtensionId ''vscode-insiders:extension/ms-python.python''
            = Some ''ms-python.python''" by code_simp
  have h2: "''vscode'' \<in> set SUPPORTED_PROTOCOLS" by (simp add: SUPPORTED_PROTOCOLS_def)
  have h3: "handleClick browser ''vscode'' Rejected ''vscode-insiders:extension/ms-python.python''
       = Inr (Navigate (extensionProtocolUrl ''vscode'' ''ms-python.python''))" by code_simp
  show ?thesis
    using h1 h3 extension_fallback_reclassified[OF h1 h2]
    by (simp add: VSCODE_EXTENSION_SCHEMES_def)
qed

text \<open>
  The claim as the specification states it, for every target protocol, fails for the
  target \<open>cursor\<close> and for the target \<open>antigravity\<close>: the URL that the handler navigates
  to is not classified as an extension link.
\<close>

theorem extension_fallback_counterexample:
  "parseVSCodeExtensionId ''vscode:extension/ms-python.python'' = Some ''ms-python.python''
   \<and> handleClick browser ''cursor'' Rejected ''vscode:extension/ms-python.python''
       = Inr (Navigate ''cursor:extension/ms-python.python'')
   \<and> parseVSCodeExtensionId ''cursor:extension/ms-python.python'' = None
   \<and> handleClick browser ''antigravity'' Rejected ''vscode:extension/ms-python.python''
       = Inr (Navigate ''antigravity://ms-python.python'')
   \<and> parseVSCodeExtensionId ''antigravity://ms-python.python'' = None"
  by code_simp

section \<open>Facts about MCP links\<close>

lemma dotStar_SomeD:
  "dotStar k acc v = Some x \<Longrightarrow> \<exists>a u. v = a @ u \<and> k (acc @ a) u = Some x"
proof (induction v arbitrary: acc)
  case Nil
  then show ?case by simp
next
  case (Cons c cs)
  show ?case
  proof (cases "\<not> lineTerminator c \<and> dotStar k (acc @ [c]) cs = Some x")
    case True
    then obtain a u where "cs = a @ u" and "k ((acc @ [c]) @ a) u = Some x"
      using Cons.IH by blast
    then have "c # cs = (c # a) @ u \<and> k (acc @ (c # a)) u = Some x" by simp
    then show ?thesis by blast
  next
    case False
    then have "k acc (c # cs) = Some x"
      using Cons.prems by (auto split: if_splits option.splits)
    then have "c # cs = [] @ (c # cs) \<and> k (acc @ []) (c # cs) = Some x" by simp
    then show ?thesis by blast
  qed
qed

lemma dotStar_None:
  "(\<And>a u. suffix u v \<Longrightarrow> k a u = None) \<Longrightarrow> dotStar k acc v = None"
proof (induction v arbitrary: acc)
  case Nil
  then show ?case by simp
next
  case (Cons c cs)
  have "dotStar k (acc @ [c]) cs = None"
    by (rule Cons.IH) (simp add: Cons.prems suffix_ConsI)
  moreover have "k acc (c # cs) = None" by (simp add: Cons.prems)
  ultimately show ?case by simp
qed

lemma dotStar_skip:
  "\<not> list_ex lineTerminator mid \<Longrightarrow> dotStar k (acc @ mid) t = Some x
   \<Longrightarrow> dotStar k acc (mid @ t) = Some x"
proof (induction mid arbitrary: acc)
  case Nil
  then show ?case by simp
next
  case (Cons c cs)
  have "dotStar k (acc @ [c]) (cs @ t) = Some x"
    by (rule Cons.IH) (use Cons.prems in auto)
  then show ?case using Cons.prems by simp
qed

lemma suffix_count_le: "suffix u v \<Longrightarrow> count_list u c \<le> count_list v c"
  by (auto simp: suffix_def)

lemma serversTail_slashes:
  assumes "serversTail u = Some x"
  shows "3 \<le> count_list u CHR ''/''"
proof -
  from assms obtain r1 sid r2 r3 where a: "lit ''/servers/'' u = Some r1"
    and b: "many1 ''/'' r1 = Some (sid, r2)" and c: "lit ''/'' r2 = Some r3"
    by (auto simp: serversTail_def split: Option.bind_splits)
  have "u = ''/servers/'' @ sid @ ''/'' @ r3"
    using a c many1_SomeD(1)[OF b] by (simp add: lit_Some_iff)
  then show ?thesis by simp
qed

lemma serversTail_shape:
  assumes "sid \<noteq> []" and "CHR ''/'' \<notin> set sid"
    and "n \<noteq> []" and "set n \<inter> set ''/?#'' = {}"
    and "t = [] \<or> hd t \<in> set ''/?#''"
  shows "serversTail (''/servers/'' @ sid @ ''/'' @ n @ t) = Some n"
proof -
  have a: "many1 ''/'' (sid @ ''/'' @ n @ t) = Some (sid, ''/'' @ n @ t)"
    using many1_append[of sid "''/''" "''/'' @ n @ t"] assms(1,2) by simp
  have b: "many1 ''/?#'' (n @ t) = Some (n, t)"
    using many1_append[of n "''/?#''" t] assms(3,4,5) by simp
  show ?thesis using a b by (simp add: serversTail_def lit_def)
qed

lemma dotStar_servers:
  assumes "\<not> list_ex lineTerminator mid"
    and "sid \<noteq> []" and "CHR ''/'' \<notin> set sid"
    and "n \<noteq> []" and "set n \<inter> set ''/?#'' = {}"
    and "t = [] \<or> hd t \<in> set ''?#''" and "CHR ''/'' \<notin> set t"
  shows "dotStar (\<lambda>skipped r. serversTail r) acc (mid @ ''/servers/'' @ sid @ ''/'' @ n @ t)
         = Some n"
proof -
  let ?k = "\<lambda>skipped r. serversTail r"
  let ?T' = "''servers/'' @ sid @ ''/'' @ n @ t"
  have nn: "CHR ''/'' \<notin> set n" using assms(5) by auto
  have cnt: "count_list ?T' CHR ''/'' = 2"
    using assms(3,7) nn by (simp add: count_list_0_iff)
  have none: "dotStar ?k a ?T' = None" for a
  proof (rule dotStar_None)
    fix b u assume "suffix u ?T'"
    then have "count_list u CHR ''/'' \<le> 2" using suffix_count_le[of u ?T'] cnt by metis
    then show "serversTail u = None"
      using serversTail_slashes[of u] by (cases "serversTail u") auto
  qed
  have t': "t = [] \<or> hd t \<in> set ''/?#''" using assms(6) by auto
  have here: "serversTail (CHR ''/'' # ?T') = Some n"
    using serversTail_shape[OF assms(2,3,4,5) t'] by simp
  have "dotStar ?k a (CHR ''/'' # ?T') = Some n" for a
    using none[of "a @ ''/''"] here by (simp add: lineTerminator_def)
  then have "dotStar ?k (acc @ mid) (''/servers/'' @ sid @ ''/'' @ n @ t) = Some n" by simp
  then show ?thesis by (rule dotStar_skip[OF assms(1)])
qed

lemma vscodeScheme_known:
  assumes "s = ''vscode'' \<or> s = ''vscode-insiders''"
    and "\<And>x. k (CHR ''-'' # x) = None"
  shows "vscodeScheme k (s @ CHR '':'' # r) = k (CHR '':'' # r)"
  using assms by (auto simp: vscodeScheme_def lit_def split: option.splits)

lemma vscodeScheme_SomeD:
  assumes "vscodeScheme k url = Some x"
  shows "\<exists>s r. (s = ''vscode'' \<or> s = ''vscode-insiders'') \<and> url = s @ r \<and> k r = Some x"
  using assms
  by (auto simp: vscodeScheme_def lit_Some_iff split: option.splits Option.bind_splits)

lemma isMcpUrl_known:
  assumes "s = ''vscode'' \<or> s = ''vscode-insiders''"
  shows "isMcpUrl (s @ '':mcp/'' @ rest)"
proof -
  have v: "vscodeScheme (lit '':mcp/'') (s @ CHR '':'' # ''mcp/'' @ rest)
        = lit '':mcp/'' (CHR '':'' # ''mcp/'' @ rest)"
    by (rule vscodeScheme_known[OF assms]) (simp add: lit_def)
  have l: "lit '':mcp/'' (CHR '':'' # ''mcp/'' @ rest) = Some rest"
    by (simp add: lit_def)
  have "s @ '':mcp/'' @ rest \<noteq> []" by simp
  then show ?thesis using v l by (simp add: isMcpUrl_def)
qed

lemma by_name_known:
  assumes "s = ''vscode'' \<or> s = ''vscode-insiders''"
    and "n \<noteq> []" and "set n \<inter> set ''/?#'' = {}" and "t = [] \<or> hd t \<in> set ''/?#''"
  shows "extractMcpServerName (s @ '':mcp/by-name/'' @ n @ t) = Some n"
proof -
  let ?k = "\<lambda>r. do { r1 \<leftarrow> lit '':mcp/by-name/'' r;
            (serverName, r2) \<leftarrow> many1 ''/?#'' r1;
            Some serverName }"
  have m: "many1 ''/?#'' (n @ t) = Some (n, t)"
    using many1_append[of n "''/?#''" t] assms(2,3,4) by simp
  have "vscodeScheme ?k (s @ CHR '':'' # ''mcp/by-name/'' @ n @ t)
        = ?k (CHR '':'' # ''mcp/by-name/'' @ n @ t)"
    by (rule vscodeScheme_known[OF assms(1)]) (simp add: lit_def)
  then have "byNameMatch (s @ '':mcp/by-name/'' @ n @ t) = Some n"
    using m by (simp add: byNameMatch_def lit_def)
  moreover have "isMcpUrl (s @ '':mcp/'' @ (''by-name/'' @ n @ t))"
    by (rule isMcpUrl_known[OF assms(1)])
  ultimately show ?thesis by (simp add: extractMcpServerName_def)
qed

lemma servers_known:
  assumes "s = ''vscode'' \<or> s = ''vscode-insiders''"
    and "\<not> list_ex lineTerminator mid"
    and "sid \<noteq> []" and "CHR ''/'' \<notin> set sid"
    and "n \<noteq> []" and "set n \<inter> set ''/?#'' = {}"
    and "t = [] \<or> hd t \<in> set ''?#''" and "CHR ''/'' \<notin> set t"
  shows "extractMcpServerName
           (s @ '':mcp/api.mcp.github.com'' @ mid @ ''/servers/'' @ sid @ ''/'' @ n @ t) = Some n"
proof -
  let ?u = "mid @ ''/servers/'' @ sid @ ''/'' @ n @ t"
  let ?kb = "\<lambda>r. do { r1 \<leftarrow> lit '':mcp/by-name/'' r;
            (serverName, r2) \<leftarrow> many1 ''/?#'' r1;
            Some serverName }"
  let ?ka = "\<lambda>r. do { r1 \<leftarrow> lit '':mcp/api.mcp.github.com'' r;
            dotStar (\<lambda>skipped r2. serversTail r2) [] r1 }"
  have "vscodeScheme ?kb (s @ CHR '':'' # ''mcp/api.mcp.github.com'' @ ?u)
        = ?kb (CHR '':'' # ''mcp/api.mcp.github.com'' @ ?u)"
    by (rule vscodeScheme_known[OF assms(1)]) (simp add: lit_def)
  then have bn: "byNameMatch (s @ '':mcp/api.mcp.github.com'' @ ?u) = None"
    by (simp add: byNameMatch_def lit_def)
  have "vscodeScheme ?ka (s @ CHR '':'' # ''mcp/api.mcp.github.com'' @ ?u)
        = ?ka (CHR '':'' # ''mcp/api.mcp.github.com'' @ ?u)"
    by (rule vscodeScheme_known[OF assms(1)]) (simp add: lit_def)
  then have api: "apiMatch (s @ '':mcp/api.mcp.github.com'' @ ?u) = Some n"
    using dotStar_servers[OF assms(2-8), of "[]"]
    by (simp add: apiMatch_def lit_def)
  have "isMcpUrl (s @ '':mcp/'' @ (''api.mcp.github.com'' @ ?u))"
    by (rule isMcpUrl_known[OF assms(1)])
  then show ?thesis using bn api by (simp add: extractMcpServerName_def)
qed

lemma extract_shape:
  assumes "extractMcpServerName url = Some n"
  shows "\<exists>s. (s = ''vscode'' \<or> s = ''vscode-insiders'')
           \<and> ((\<exists>t. url = s @ '':mcp/by-name/'' @ n @ t)
              \<or> (\<exists>mid sid t. url = s @ '':mcp/api.mcp.github.com'' @ mid @ ''/servers/''
                                      @ sid @ ''/'' @ n @ t))"
proof (cases "byNameMatch url")
  case (Some m)
  then have mn: "m = n" using assms by (auto simp: extractMcpServerName_def split: if_splits)
  from Some obtain s r where s: "s = ''vscode'' \<or> s = ''vscode-insiders''" and u: "url = s @ r"
    and k: "do { r1 \<leftarrow> lit '':mcp/by-name/'' r;
            (serverName, r2) \<leftarrow> many1 ''/?#'' r1;
            Some serverName } = Some m"
    using vscodeScheme_SomeD[OF Some[unfolded byNameMatch_def]] by blast
  from k obtain r1 r2 where a: "lit '':mcp/by-name/'' r = Some r1"
    and b: "many1 ''/?#'' r1 = Some (m, r2)"
    by (auto split: Option.bind_splits)
  have "url = s @ '':mcp/by-name/'' @ n @ r2"
    using u a many1_SomeD(1)[OF b] mn by (simp add: lit_Some_iff)
  then show ?thesis using s by blast
next
  case None
  then have am: "apiMatch url = Some n"
    using assms by (auto simp: extractMcpServerName_def split: if_splits)
  obtain s r where s: "s = ''vscode'' \<or> s = ''vscode-insiders''" and u: "url = s @ r"
    and k: "do { r1 \<leftarrow> lit '':mcp/api.mcp.github.com'' r;
            dotStar (\<lambda>skipped r2. serversTail r2) [] r1 } = Some n"
    using vscodeScheme_SomeD[OF am[unfolded apiMatch_def]] by blast
  from k obtain r1 where a: "lit '':mcp/api.mcp.github.com'' r = Some r1"
    and d: "dotStar (\<lambda>skipped r2. serversTail r2) [] r1 = Some n"
    by (auto split: Option.bind_splits)
  from dotStar_SomeD[OF d] obtain mid v where r1: "r1 = mid @ v" and st: "serversTail v = Some n"
    by auto
  from st obtain q1 sid q2 q3 q4 where a1: "lit ''/servers/'' v = Some q1"
    and a2: "many1 ''/'' q1 = Some (sid, q2)" and a3: "lit ''/'' q2 = Some q3"
    and a4: "many1 ''/?#'' q3 = Some (n, q4)"
    by (auto simp: serversTail_def split: Option.bind_splits)
  have "v = ''/servers/'' @ sid @ ''/'' @ n @ q4"
    using a1 a3 many1_SomeD(1)[OF a2] many1_SomeD(1)[OF a4] by (simp add: lit_Some_iff)
  then have "url = s @ '':mcp/api.mcp.github.com'' @ mid @ ''/servers/'' @ sid @ ''/'' @ n @ q4"
    using u a r1 by (simp add: lit_Some_iff)
  then show ?thesis using s by blast
qed

text \<open>
  Claim C4, as the code has it. For the schemes \<open>vscode\<close> and \<open>vscode-insiders\<close>, every
  link \<open>s:mcp/...\<close> passes \<open>isMcpUrl\<close>. The server name of \<open>s:mcp/by-name/n\<close> is \<open>n\<close>,
  the text up to the next \<open>/\<close>, \<open>?\<close> or \<open>#\<close>. The server name of
  \<open>s:mcp/api.mcp.github.com...\<close>\<open>/servers/id/n\<close> is its last segment \<open>n\<close>, when the text
  before \<open>/servers/\<close> has no line break and only a query or a fragment without a slash
  follows \<open>n\<close>. And whenever a name is extracted from a link, the link has one of the two
  shapes; otherwise the result is \<open>null\<close>.
\<close>

theorem mcp_classification:
  assumes "s = ''vscode'' \<or> s = ''vscode-insiders''"
    and "n \<noteq> []" and "set n \<inter> set ''/?#'' = {}"
    and "t = [] \<or> hd t \<in> set ''/?#''"
    and "\<not> list_ex lineTerminator mid"
    and "sid \<noteq> []" and "CHR ''/'' \<notin> set sid"
    and "q = [] \<or> hd q \<in> set ''?#''" and "CHR ''/'' \<notin> set q"
  shows "isMcpUrl (s @ '':mcp/'' @ rest)
         \<and> extractMcpServerName (s @ '':mcp/by-name/'' @ n @ t) = Some n
         \<and> extractMcpServerName
               (s @ '':mcp/api.mcp.github.com'' @ mid @ ''/servers/'' @ sid @ ''/'' @ n @ q)
             = Some n
         \<and> (\<forall>url m. extractMcpServerName url = Some m \<longrightarrow>
               (\<exists>s'. (s' = ''vscode'' \<or> s' = ''vscode-insiders'')
                  \<and> ((\<exists>t'. url = s' @ '':mcp/by-name/'' @ m @ t')
                     \<or> (\<exists>mid' sid' t'. url = s' @ '':mcp/api.mcp.github.com'' @ mid'
                                             @ ''/servers/'' @ sid' @ ''/'' @ m @ t'))))"
  using isMcpUrl_known[OF assms(1)] by_name_known[OF assms(1-4)]
    servers_known[OF assms(1) assms(5-7) assms(2,3) assms(8,9)] extract_shape
  by blast

theorem mcp_classification_witness:
  "isMcpUrl ''vscode-insiders:mcp/install''
   \<and> extractMcpServerName ''vscode-insiders:mcp/by-name/hf-mcp-server?source=web''
       = Some ''hf-mcp-server''
   \<and> extractMcpServerName
         ''vscode-insiders:mcp/api.mcp.github.com/2025-09-15/v0/servers/huggingface/hf-mcp-server''
       = Some ''hf-mcp-server''"
proof -
  have h1: "''vscode-insiders'' = ''vscode'' \<or> ''vscode-insiders'' = ''vscode-insiders''"
    by simp
  have h2: "''hf-mcp-server'' \<noteq> []" by simp
  have h3: "set ''hf-mcp-server'' \<inter> set ''/?#'' = {}" by simp
  have h4: "''?source=web'' = [] \<or> hd ''?source=web'' \<in> set ''/?#''" by simp
  have h5: "\<not> list_ex lineTerminator ''/2025-09-15/v0''" by (simp add: lineTerminator_def)
  have h6: "''huggingface'' \<noteq> []" by simp
  have h7: "CHR ''/'' \<notin> set ''huggingface''" by simp
  have h8: "([]::string) = [] \<or> hd ([]::string) \<in> set ''?#''" by simp
  have h9: "CHR ''/'' \<notin> set ([]::string)" by simp
  show ?thesis
    using mcp_classification[OF h1 h2 h3 h4 h5 h6 h7 h8 h9, of "''install''"]
    by simp
qed

text \<open>
  The claim as the specification states it, for every scheme of the supported IDEs, fails
  for \<open>cursor\<close>, a member of \<open>SUPPORTED_PROTOCOLS\<close>: the link is no MCP link for the
  classifier, no server name is extracted, and the handler rewrites it as a plain
  protocol link.
\<close>

theorem mcp_classification_counterexample:
  "''cursor'' \<in> set SUPPORTED_PROTOCOLS
   \<and> \<not> isMcpUrl ''cursor:mcp/by-name/huggingface''
   \<and> extractMcpServerName ''cursor:mcp/by-name/huggingface'' = None
   \<and> handleClick browser ''antigravity'' Rejected ''cursor:mcp/by-name/huggingface''
       = Inr (Navigate ''antigravity://mcp/by-name/huggingface'')"
  by code_simp

section \<open>Parsing never throws to the caller\<close>














section \<open>The order of the steps of the click handler\<close>

lemma handleClick_redirect_step:
  assumes "\<not> isAuthCallbackUrl href" and "parseVSCodeExtensionId href = None"
    and "isVSCodeDevRedirectUrl href"
    and "convertVSCodeDevToProtocol P t href = Inr (Some u)" and "u \<noteq> []"
  shows "handleClick P t reply href = Inr (Navigate u)"
  using assms by (simp add: handleClick_def bindE_def)

lemma handleClick_vsix_step:
  assumes "\<not> isAuthCallbackUrl href" and "parseVSCodeExtensionId href = None"
    and "\<not> isVSCodeDevRedirectUrl href"
    and "isVsixUrl P href = Inr True" and "parseExtensionFromVsixUrl P href = Inr info"
  shows "handleClick P t reply href = Inr (Navigate (buildVsixInstallUrl t href info))"
  using assms by (simp add: handleClick_def bindE_def)

lemma handleClick_mcp_step:
  assumes "\<not> isAuthCallbackUrl href" and "parseVSCodeExtensionId href = None"
    and "\<not> isVSCodeDevRedirectUrl href"
    and "isVsixUrl P href = Inr False"
  shows "handleClick P t reply href = Inr (mcpOutcome t href)"
  using assms by (simp add: handleClick_def bindE_def)

lemma isVsixUrl_other_protocol:
  assumes "new_URL P href = Inr urlObj"
    and "protocol urlObj \<noteq> ''http:''" and "protocol urlObj \<noteq> ''https:''"
  shows "isVsixUrl P href = Inr False"
  using assms by (simp add: isVsixUrl_def isVsixUrl_try_def bindE_def try_catch_def)

section \<open>The examples of the specification\<close>

text \<open>What the browser of the examples reads from the links of the examples.\<close>

lemma browser_reads_redirect_example:
  "new_URL browser ''https://insiders.vscode.dev/redirect?url=vscode%3Aextension%2Ffoo.bar''
   = Inr \<lparr>protocol = ''https:'', hostname = ''insiders.vscode.dev'', pathname = ''/redirect'',
          search = ''?url=vscode%3Aextension%2Ffoo.bar'',
          searchParams = [(''url'', ''vscode:extension/foo.bar'')]\<rparr>"
  by code_simp

lemma browser_decodes_inner_link:
  "decodeURIComponent browser ''vscode:extension/foo.bar'' = Inr ''vscode:extension/foo.bar''"
  by code_simp

lemma browser_reads_marketplace_example:
  "new_URL browser
     ''https://marketplace.visualstudio.com/_apis/public/gallery/publishers/ms-python/vsextensions/python/2024.1.0/vspackage''
   = Inr \<lparr>protocol = ''https:'', hostname = ''marketplace.visualstudio.com'',
          pathname = ''/_apis/public/gallery/publishers/ms-python/vsextensions/python/2024.1.0/vspackage'',
          search = [], searchParams = []\<rparr>"
  by code_simp

lemma browser_reads_mcp_example:
  "new_URL browser ''vscode:mcp/by-name/huggingface''
   = Inr \<lparr>protocol = ''vscode:'', hostname = [], pathname = ''mcp/by-name/huggingface'',
          search = [], searchParams = []\<rparr>"
  by code_simp

lemma browser_reads_mcp_constructor:
  "new_URL browser ''vscode:mcp/by-name/constructor''
   = Inr \<lparr>protocol = ''vscode:'', hostname = [], pathname = ''mcp/by-name/constructor'',
          search = [], searchParams = []\<rparr>"
  by code_simp

lemma formEncode_url: "formEncode ''url'' = ''url''"
  by code_simp

subsection \<open>The marketplace download\<close>

text \<open>
  The example holds for every platform whose parser reads the marketplace link as the URL
  Standard does: scheme \<open>https:\<close>, the host, and the path unchanged.
\<close>

lemma vsix_example_any_browser:
  assumes "new_URL P
     ''https://marketplace.visualstudio.com/_apis/public/gallery/publishers/ms-python/vsextensions/python/2024.1.0/vspackage''
   = Inr \<lparr>protocol = ''https:'', hostname = ''marketplace.visualstudio.com'',
          pathname = ''/_apis/public/gallery/publishers/ms-python/vsextensions/python/2024.1.0/vspackage'',
          search = q, searchParams = ps\<rparr>"
  shows "parseExtensionFromVsixUrl P
       ''https://marketplace.visualstudio.com/_apis/public/gallery/publishers/ms-python/vsextensions/python/2024.1.0/vspackage''
     = Inr (Some \<lparr>publisher = ''ms-python'', name = ''python'', version = Some ''2024.1.0''\<rparr>)"
    and "handleClick P ''antigravity'' reply
       ''https://marketplace.visualstudio.com/_apis/public/gallery/publishers/ms-python/vsextensions/python/2024.1.0/vspackage''
     = Inr (Navigate
         ''antigravity://extension/install?url=https%3A%2F%2Fmarketplace.visualstudio.com%2F_apis%2Fpublic%2Fgallery%2Fpublishers%2Fms-python%2Fvsextensions%2Fpython%2F2024.1.0%2Fvspackage&name=ms-python.python&version=2024.1.0'')"
proof -
  let ?href = "''https://marketplace.visualstudio.com/_apis/public/gallery/publishers/ms-python/vsextensions/python/2024.1.0/vspackage''"
  let ?path = "''/_apis/public/gallery/publishers/ms-python/vsextensions/python/2024.1.0/vspackage''"
  let ?info = "\<lparr>publisher = ''ms-python'', name = ''python'', version = Some ''2024.1.0''\<rparr>"
  have host: "toLowerCase ''marketplace.visualstudio.com'' = ''marketplace.visualstudio.com''"
    by code_simp
  have path: "toLowerCase ?path = ?path" by code_simp
  have nosuffix: "\<not> endsWith ?path ''.vsix''" by code_simp
  have h1: "\<not> endsWith ''marketplace.visualstudio.com'' ''.open-vsx.org''" by code_simp
  have h2: "\<not> endsWith ''marketplace.visualstudio.com'' ''.gallery.vsassets.io''" by code_simp
  have test: "marketplaceTest ?path" by code_simp
  have vsix: "isVsixUrl P ?href = Inr True"
    using assms host path nosuffix h1 h2 test
    by (simp add: isVsixUrl_def isVsixUrl_try_def bindE_def try_catch_def)
  have mm: "marketplaceMatch ?path = Some ?info" by code_simp
  show info: "parseExtensionFromVsixUrl P ?href = Inr (Some ?info)"
    using assms host h2 mm
    by (simp add: parseExtensionFromVsixUrl_def parseExtensionFromVsixUrl_try_def bindE_def
        try_catch_def)
  have a: "\<not> isAuthCallbackUrl ?href" by code_simp
  have e: "parseVSCodeExtensionId ?href = None" by code_simp
  have r: "\<not> isVSCodeDevRedirectUrl ?href" by code_simp
  have b: "buildVsixInstallUrl ''antigravity'' ?href (Some ?info)
           = ''antigravity://extension/install?url=https%3A%2F%2Fmarketplace.visualstudio.com%2F_apis%2Fpublic%2Fgallery%2Fpublishers%2Fms-python%2Fvsextensions%2Fpython%2F2024.1.0%2Fvspackage&name=ms-python.python&version=2024.1.0''"
    by code_simp
  show "handleClick P ''antigravity'' reply ?href
     = Inr (Navigate
         ''antigravity://extension/install?url=https%3A%2F%2Fmarketplace.visualstudio.com%2F_apis%2Fpublic%2Fgallery%2Fpublishers%2Fms-python%2Fvsextensions%2Fpython%2F2024.1.0%2Fvspackage&name=ms-python.python&version=2024.1.0'')"
    using handleClick_vsix_step[OF a e r vsix info, of "''antigravity''" reply] b by simp
qed

text \<open>
  Claim C5, as the code has it. For the marketplace link of the example and the target
  \<open>antigravity\<close>, the extracted publisher, name and version are \<open>ms-python\<close>, \<open>python\<close>
  and \<open>2024.1.0\<close>, and the handler navigates to the install URL whose \<open>url\<close> parameter
  is the original link in form encoding (\<open>:\<close> as \<open>%3A\<close>, \<open>/\<close> as \<open>%2F\<close>), followed by
  the \<open>name\<close> and \<open>version\<close> parameters. Without extracted information the install URL
  has the \<open>url\<close> parameter alone.
\<close>

theorem vsix_example:
  "parseExtensionFromVsixUrl browser
       ''https://marketplace.visualstudio.com/_apis/public/gallery/publishers/ms-python/vsextensions/python/2024.1.0/vspackage''
     = Inr (Some \<lparr>publisher = ''ms-python'', name = ''python'', version = Some ''2024.1.0''\<rparr>)
   \<and> handleClick browser ''antigravity'' reply
       ''https://marketplace.visualstudio.com/_apis/public/gallery/publishers/ms-python/vsextensions/python/2024.1.0/vspackage''
     = Inr (Navigate
         ''antigravity://extension/install?url=https%3A%2F%2Fmarketplace.visualstudio.com%2F_apis%2Fpublic%2Fgallery%2Fpublishers%2Fms-python%2Fvsextensions%2Fpython%2F2024.1.0%2Fvspackage&name=ms-python.python&version=2024.1.0'')
   \<and> (\<forall>t u. buildVsixInstallUrl t u None = t @ ''://extension/install?url='' @ formEncode u)"
proof -
  have c: "buildVsixInstallUrl t u None = t @ ''://extension/install?url='' @ formEncode u"
    for t u
    by (simp add: buildVsixInstallUrl_def formEncode_url)
  show ?thesis
    using vsix_example_any_browser(1)[OF browser_reads_marketplace_example]
      vsix_example_any_browser(2)[OF browser_reads_marketplace_example, of reply] c
    by blast
qed

text \<open>
  The output that the specification prints, with the original link copied into the
  \<open>url\<close> parameter as it is, is not what the handler navigates to.
\<close>

theorem vsix_example_counterexample:
  "handleClick browser ''antigravity'' Rejected
       ''https://marketplace.visualstudio.com/_apis/public/gallery/publishers/ms-python/vsextensions/python/2024.1.0/vspackage''
   \<noteq> Inr (Navigate
         ''antigravity://extension/install?url=https://marketplace.visualstudio.com/_apis/public/gallery/publishers/ms-python/vsextensions/python/2024.1.0/vspackage&name=ms-python.python&version=2024.1.0'')"
  by code_simp

subsection \<open>The MCP link\<close>

text \<open>
  The MCP example: for \<open>vscode:mcp/by-name/huggingface\<close> and the target \<open>antigravity\<close>
  the handler cancels the click and shows the instructions for the repository that the
  table gives; it navigates nowhere itself. This holds for every platform for which the
  link is no VSIX download.
\<close>

lemma mcp_by_name_any_browser:
  assumes "isVsixUrl P ''vscode:mcp/by-name/huggingface'' = Inr False"
  shows "handleClick P ''antigravity'' reply ''vscode:mcp/by-name/huggingface''
   = Inr (McpInstructions ''huggingface'' (Own ''https://github.com/huggingface/hf-mcp-server''))"
proof -
  let ?href = "''vscode:mcp/by-name/huggingface''"
  have a: "\<not> isAuthCallbackUrl ?href" by code_simp
  have e: "parseVSCodeExtensionId ?href = None" by code_simp
  have r: "\<not> isVSCodeDevRedirectUrl ?href" by code_simp
  have m: "mcpOutcome ''antigravity'' ?href
           = McpInstructions ''huggingface'' (Own ''https://github.com/huggingface/hf-mcp-server'')"
    by code_simp
  show ?thesis using handleClick_mcp_step[OF a e r assms, of "''antigravity''" reply] m by simp
qed


lemma mcp_example_huggingface:
  "handleClick browser ''antigravity'' reply ''vscode:mcp/by-name/huggingface''
   = Inr (McpInstructions ''huggingface'' (Own ''https://github.com/huggingface/hf-mcp-server''))"
proof -
  have "isVsixUrl browser ''vscode:mcp/by-name/huggingface'' = Inr False"
    by (rule isVsixUrl_other_protocol[OF browser_reads_mcp_example]) simp_all
  then show ?thesis by (rule mcp_by_name_any_browser)
qed

text \<open>
  A server name that is neither a key of the table nor a member of \<open>Object.prototype\<close>
  produces nothing: the click is cancelled and that is all.
\<close>

lemma mcp_unknown_name_suppressed:
  assumes "isMcpUrl href" and "extractMcpServerName href = Some n" and "n \<noteq> []"
    and "getProperty MCP_REPO_MAP n = None"
  shows "mcpOutcome ''antigravity'' href = Suppressed"
  using assms by (simp add: mcpOutcome_def)

lemma mcp_inherited_any_browser:
  assumes "isVsixUrl P ''vscode:mcp/by-name/constructor'' = Inr False"
  shows "handleClick P ''antigravity'' reply ''vscode:mcp/by-name/constructor''
   = Inr (McpInstructions ''constructor'' (Inherited ''constructor''))"
proof -
  let ?href = "''vscode:mcp/by-name/constructor''"
  have a: "\<not> isAuthCallbackUrl ?href" by code_simp
  have e: "parseVSCodeExtensionId ?href = None" by code_simp
  have r: "\<not> isVSCodeDevRedirectUrl ?href" by code_simp
  have m: "mcpOutcome ''antigravity'' ?href
           = McpInstructions ''constructor'' (Inherited ''constructor'')"
    by code_simp
  show ?thesis using handleClick_mcp_step[OF a e r assms, of "''antigravity''" reply] m by simp
qed


text \<open>
  Claim C6 at the link \<open>vscode:mcp/by-name/constructor\<close>. The name \<open>constructor\<close> is not
  a key of \<open>MCP_REPO_MAP\<close>, yet the property read finds the member that every object
  inherits, the test \<open>if (repoUrl)\<close> succeeds, and the handler calls
  \<open>showMcpInstructionModal\<close> with it: an outcome is produced for a name that is absent
  from the table.
\<close>

theorem mcp_inherited_property:
  "map_of MCP_REPO_MAP ''constructor'' = None
   \<and> extractMcpServerName ''vscode:mcp/by-name/constructor'' = Some ''constructor''
   \<and> handleClick browser ''antigravity'' reply ''vscode:mcp/by-name/constructor''
       = Inr (McpInstructions ''constructor'' (Inherited ''constructor''))"
proof -
  have absent: "map_of MCP_REPO_MAP ''constructor'' = None" by code_simp
  have extracted: "extractMcpServerName ''vscode:mcp/by-name/constructor'' = Some ''constructor''"
    by code_simp
  have "isVsixUrl browser ''vscode:mcp/by-name/constructor'' = Inr False"
    by (rule isVsixUrl_other_protocol[OF browser_reads_mcp_constructor]) simp_all
  then have "handleClick browser ''antigravity'' reply ''vscode:mcp/by-name/constructor''
       = Inr (McpInstructions ''constructor'' (Inherited ''constructor''))"
    by (rule mcp_inherited_any_browser)
  then show ?thesis using absent extracted by simp
qed

subsection \<open>The redirect link\<close>

text \<open>
  The example holds for every platform whose parser finds the inner link in the \<open>url\<close>
  parameter and whose decoder leaves it as it is, having no escape left in it.
\<close>

lemma dev_redirect_any_browser:
  assumes "new_URL P ''https://insiders.vscode.dev/redirect?url=vscode%3Aextension%2Ffoo.bar''
           = Inr urlObj"
    and "searchParams_get urlObj ''url'' = Some ''vscode:extension/foo.bar''"
    and "decodeURIComponent P ''vscode:extension/foo.bar'' = Inr ''vscode:extension/foo.bar''"
  shows "convertVSCodeDevToProtocol P ''windsurf''
           ''https://insiders.vscode.dev/redirect?url=vscode%3Aextension%2Ffoo.bar''
         = Inr (Some ''windsurf:extension/foo.bar'')"
    and "handleClick P ''windsurf'' reply
           ''https://insiders.vscode.dev/redirect?url=vscode%3Aextension%2Ffoo.bar''
         = Inr (Navigate ''windsurf:extension/foo.bar'')"
proof -
  let ?href = "''https://insiders.vscode.dev/redirect?url=vscode%3Aextension%2Ffoo.bar''"
  have rw: "redirectParamUrl ''windsurf'' ''vscode:extension/foo.bar''
            = ''windsurf:extension/foo.bar''"
    by code_simp
  show conv: "convertVSCodeDevToProtocol P ''windsurf'' ?href
              = Inr (Some ''windsurf:extension/foo.bar'')"
    using assms rw
    by (simp add: convertVSCodeDevToProtocol_def convertVSCodeDevToProtocol_try_def bindE_def
        try_catch_def)
  have a: "\<not> isAuthCallbackUrl ?href" by code_simp
  have e: "parseVSCodeExtensionId ?href = None" by code_simp
  have r: "isVSCodeDevRedirectUrl ?href" by code_simp
  show "handleClick P ''windsurf'' reply ?href = Inr (Navigate ''windsurf:extension/foo.bar'')"
    by (rule handleClick_redirect_step[OF a e r conv]) simp
qed

text \<open>
  Claim C7. For the redirect link of the example and the target \<open>windsurf\<close>, the \<open>url\<close>
  parameter holds the inner link \<open>vscode:extension/foo.bar\<close> once the escapes are decoded,
  its scheme is replaced, and the handler navigates to \<open>windsurf:extension/foo.bar\<close>.
\<close>

theorem dev_redirect_example:
  "bindE (new_URL browser ''https://insiders.vscode.dev/redirect?url=vscode%3Aextension%2Ffoo.bar'')
         (\<lambda>urlObj. Inr (searchParams_get urlObj ''url''))
     = Inr (Some ''vscode:extension/foo.bar'')
   \<and> convertVSCodeDevToProtocol browser ''windsurf''
         ''https://insiders.vscode.dev/redirect?url=vscode%3Aextension%2Ffoo.bar''
     = Inr (Some ''windsurf:extension/foo.bar'')
   \<and> handleClick browser ''windsurf'' reply
         ''https://insiders.vscode.dev/redirect?url=vscode%3Aextension%2Ffoo.bar''
     = Inr (Navigate ''windsurf:extension/foo.bar'')"
proof -
  let ?urlObj = "\<lparr>protocol = ''https:'', hostname = ''insiders.vscode.dev'',
                  pathname = ''/redirect'', search = ''?url=vscode%3Aextension%2Ffoo.bar'',
                  searchParams = [(''url'', ''vscode:extension/foo.bar'')]\<rparr>"
  have param: "searchParams_get ?urlObj ''url'' = Some ''vscode:extension/foo.bar''"
    by (simp add: searchParams_get_def)
  have inner: "bindE (new_URL browser
                 ''https://insiders.vscode.dev/redirect?url=vscode%3Aextension%2Ffoo.bar'')
                 (\<lambda>urlObj. Inr (searchParams_get urlObj ''url''))
               = Inr (Some ''vscode:extension/foo.bar'')"
    using param by (simp add: browser_reads_redirect_example bindE_def)
  show ?thesis
    using inner
      dev_redirect_any_browser(1)[OF browser_reads_redirect_example param
        browser_decodes_inner_link]
      dev_redirect_any_browser(2)[OF browser_reads_redirect_example param
        browser_decodes_inner_link, of reply]
    by simp
qed

end
